theory Spec2Isabelle
  imports Complex_Main
begin

section \<open>Data model\<close>

text \<open>
  The module \<^verbatim>\<open>plotting.py\<close> normalises a density array and drives comparison plots.
  A NumPy array is its shape, its strides (counted in elements, one per axis) and
  the buffer it reads from. \<^verbatim>\<open>np.asarray\<close> hands an array through as it is, so
  an argument may be a transposed or sliced view; an array built from a sequence
  is C-contiguous. Values are rationals: every double is one.
\<close>

type_synonym axis = "rat list"

record ndarray =
  shape :: "nat list"
  strides :: "int list"
  data :: "rat list"

text \<open>\<^verbatim>\<open>pdf.size\<close>: the product of the dimensions (1 for a zero-dimensional array).\<close>

definition size_nd :: "ndarray \<Rightarrow> nat" where
  "size_nd a = prod_list (shape a)"

text \<open>Python exceptions, with a message.\<close>

datatype pyerror =
    ValueError string
  | TypeError string
  | AttributeError string
  | UnboundLocalError string
  | IndexError string
  | AssertionError

subsection \<open>Assigning a shape in place\<close>

text \<open>
  The strides NumPy gives a fresh C-ordered array of a shape; an axis of length 0
  counts as 1.
\<close>

fun c_strides :: "nat list \<Rightarrow> int list" where
  "c_strides [] = []"
| "c_strides (d # ds) = int (prod_list (map (\<lambda>k. max k 1) ds)) # c_strides ds"

text \<open>
  NumPy's C-contiguity flag, read from the last axis to the first: axes of length 1
  are skipped, every other axis must have the stride of the packed layout. An
  array with an axis of length 0 is contiguous.
\<close>

fun packed_from :: "(nat \<times> int) list \<Rightarrow> int \<Rightarrow> bool" where
  "packed_from [] sd = True"
| "packed_from ((d, st) # rest) sd =
     (if d = 1 then packed_from rest sd
      else st = sd \<and> packed_from rest (sd * int d))"

definition is_c_contiguous :: "ndarray \<Rightarrow> bool" where
  "is_c_contiguous a =
     (0 \<in> set (shape a) \<or> packed_from (rev (zip (shape a) (strides a))) 1)"

text \<open>
  NumPy's attempt to reshape without copying (C order). Old axes of length 1 are
  dropped. Old and new axes are then matched in groups of equal element count:
  starting from one axis on each side, \<open>grow\<close> takes further axes on the side
  whose product is smaller until the two products agree, and returns how many
  further new and old axes it took.
\<close>

fun grow :: "nat \<Rightarrow> nat list \<Rightarrow> nat \<Rightarrow> nat list \<Rightarrow> (nat \<times> nat) option" where
  "grow np nrest op orest =
     (if np = op then Some (0, 0)
      else if np < op then
        (case nrest of
           [] \<Rightarrow> None
         | d # nrest' \<Rightarrow> map_option (\<lambda>(i, j). (Suc i, j)) (grow (np * d) nrest' op orest))
      else
        (case orest of
           [] \<Rightarrow> None
         | d # orest' \<Rightarrow> map_option (\<lambda>(i, j). (i, Suc j)) (grow np nrest (op * d) orest')))"

declare grow.simps [simp del]

text \<open>The old axes of a group can be merged when each stride spans the next axis.\<close>

fun combinable :: "(nat \<times> int) list \<Rightarrow> bool" where
  "combinable ((d, st) # (d', st') # rest) =
     (st = int d' * st' \<and> combinable ((d', st') # rest))"
| "combinable rest = True"

text \<open>
  The strides of the new axes of a group: the last one takes the stride of the
  last old axis, each earlier one spans the axis after it.
\<close>

fun group_strides :: "nat list \<Rightarrow> int \<Rightarrow> int list" where
  "group_strides [] last_stride = []"
| "group_strides [n] last_stride = [last_stride]"
| "group_strides (n # n' # rest) last_stride =
     (let r = group_strides (n' # rest) last_stride in (hd r * int n') # r)"

text \<open>
  The loop over the groups. New axes left over when the old ones are used up
  have length 1 and repeat the last stride.
\<close>

fun regroup :: "nat list \<Rightarrow> (nat \<times> int) list \<Rightarrow> int list \<Rightarrow> int list option" where
  "regroup [] olds acc = Some acc"
| "regroup (n # nrest) [] acc =
     Some (acc @ replicate (length (n # nrest)) (if acc = [] then 1 else last acc))"
| "regroup (n # nrest) ((d, st) # orest) acc =
     (case grow n nrest d (map fst orest) of
        None \<Rightarrow> None
      | Some (i, j) \<Rightarrow>
          (let ogrp = (d, st) # take j orest in
           if combinable ogrp
           then regroup (drop i nrest) (drop j orest)
                  (acc @ group_strides (n # take i nrest) (snd (last ogrp)))
           else None))"

definition attempt_nocopy_reshape :: "ndarray \<Rightarrow> nat list \<Rightarrow> int list option" where
  "attempt_nocopy_reshape a shp =
     regroup shp (filter (\<lambda>(d, st). d \<noteq> 1) (zip (shape a) (strides a))) []"

text \<open>
  \<^verbatim>\<open>pdf.shape = new_shape\<close>. Assigning the shape the array has changes nothing. A
  shape of another element count is refused. A contiguous array takes the packed
  strides of the new shape; any other array takes the new shape only if that needs
  no copy, and the assignment raises \<^verbatim>\<open>AttributeError\<close> otherwise.
\<close>

definition set_shape :: "ndarray \<Rightarrow> nat list \<Rightarrow> pyerror + ndarray" where
  "set_shape a shp =
     (if shp = shape a then Inr a
      else if prod_list shp \<noteq> size_nd a then Inl (ValueError ''cannot reshape array'')
      else if is_c_contiguous a then Inr (a\<lparr>shape := shp, strides := c_strides shp\<rparr>)
      else
        (case attempt_nocopy_reshape a shp of
           None \<Rightarrow> Inl (AttributeError ''incompatible shape for a non-contiguous array'')
         | Some sts \<Rightarrow> Inr (a\<lparr>shape := shp, strides := sts\<rparr>)))"

text \<open>\<^verbatim>\<open>pdf.shape[i]\<close>: indexing the shape tuple.\<close>

definition shape_at :: "ndarray \<Rightarrow> nat \<Rightarrow> pyerror + nat" where
  "shape_at a i =
     (if i < length (shape a) then Inr (shape a ! i)
      else Inl (IndexError ''tuple index out of range''))"


subsection \<open>Double precision\<close>

function bit_length :: "int \<Rightarrow> nat" where
  "bit_length n = (if n \<le> 0 then 0 else Suc (bit_length (n div 2)))"
  by pat_completeness auto
termination
  by (relation "measure nat") auto

declare bit_length.simps [simp del]

text \<open>
  The exponent \<open>e\<close> of a positive rational \<open>a\<close>, with \<open>2^e \<le> a < 2^(e+1)\<close>: the
  bit lengths of numerator and denominator give it up to one.
\<close>

definition binary_exponent :: "rat \<Rightarrow> int" where
  "binary_exponent a =
     (let (p, q) = quotient_of a;
          e0 = int (bit_length p) - int (bit_length q)
      in if 2 powi e0 \<le> a then e0 else e0 - 1)"

definition round_half_even :: "rat \<Rightarrow> int" where
  "round_half_even x =
     (let f = \<lfloor>x\<rfloor>; d = x - of_int f
      in if d < 1 / 2 then f
         else if 1 / 2 < d then f + 1
         else if even f then f else f + 1)"

text \<open>
  Rounding a rational to the nearest double, ties to the even significand:
  53 significant bits, with the exponent range left unbounded (the values met
  here lie between \<open>2^-1022\<close> and \<open>2^1023\<close>).
\<close>

definition round_double :: "rat \<Rightarrow> rat" where
  "round_double x =
     (if x = 0 then 0
      else
        (let a = \<bar>x\<bar>; q = 2 powi (binary_exponent a - 52)
         in sgn x * of_int (round_half_even (a / q)) * q))"

text \<open>
  \<^verbatim>\<open>int(n ** 0.5)\<close> for an element count \<open>n\<close>: the integer part of the square
  root. The source computes it in double precision; the result of the power is
  exact whenever \<open>n\<close> is a perfect square below \<open>2^53\<close>, and the only use of the
  value is the exact integer test \<^verbatim>\<open>s ** 2 == n\<close>, so on every array that fits in
  memory the source takes the same branch and binds the same \<open>s\<close> as this model.
\<close>

primrec int_sqrt :: "nat \<Rightarrow> nat" where
  "int_sqrt 0 = 0"
| "int_sqrt (Suc n) =
     (let r = int_sqrt n in if (r + 1) * (r + 1) \<le> Suc n then r + 1 else r)"

text \<open>
  \<^verbatim>\<open>np.linspace(start, stop, num)\<close> in double precision, as NumPy computes it:
  the indices \<open>0, ..., num - 1\<close> are multiplied by the rounded step
  \<open>(stop - start) / (num - 1)\<close> (or, should the step round to zero, divided by
  \<open>num - 1\<close> and multiplied by \<open>stop - start\<close>), \<open>start\<close> is added, and with more
  than one sample the last one is set to \<open>stop\<close>. A single sample has no step and
  is multiplied by \<open>stop - start\<close>.
\<close>

definition linspace :: "rat \<Rightarrow> rat \<Rightarrow> nat \<Rightarrow> axis" where
  "linspace start stop num =
     (let delta = round_double (stop - start);
          y0 = map of_nat [0..<num];
          y1 = (if num > 1 then
                  (let step = round_double (delta / of_nat (num - 1)) in
                   if step = 0 then
                     map (\<lambda>y. round_double (round_double (y / of_nat (num - 1)) * delta)) y0
                   else map (\<lambda>y. round_double (y * step)) y0)
                else map (\<lambda>y. round_double (y * delta)) y0);
          y2 = map (\<lambda>y. round_double (y + start)) y1
      in if num > 1 then y2[num - 1 := stop] else y2)"

section \<open>Grid normalisation\<close>

text \<open>
  Lines 36 to 40: when \<^verbatim>\<open>indexes\<close> is given, its first element replaces \<open>x\<close> and
  its second replaces \<open>y\<close>. An element may itself be \<^verbatim>\<open>None\<close>.
\<close>

definition apply_indexes ::
  "axis option \<Rightarrow> axis option \<Rightarrow> axis option list option \<Rightarrow> axis option \<times> axis option"
where
  "apply_indexes x y indexes =
     (case indexes of
        None \<Rightarrow> (x, y)
      | Some ix \<Rightarrow>
          (if length ix > 0 then ix ! 0 else x,
           if length ix > 1 then ix ! 1 else y))"

text \<open>
  Lines 43 to 53, the branch taken when no axis is set. The result is the array
  and the local variable \<open>s\<close>, which is bound only by the one-dimensional case:
  \<open>None\<close> stands for the unbound local.
\<close>

definition infer_shape :: "ndarray \<Rightarrow> pyerror + (ndarray \<times> nat option)" where
  "infer_shape pdf =
     (if length (shape pdf) = 2 then Inr (pdf, None)
      else if length (shape pdf) = 1 then
        (let s = int_sqrt (shape pdf ! 0) in
         if s ^ 2 = shape pdf ! 0 then
           (case set_shape pdf [s, s] of
              Inl e \<Rightarrow> Inl e
            | Inr pdf' \<Rightarrow> Inr (pdf', Some s))
         else Inl (ValueError (''Cannot infer shape of flattened data array pdf since it does not have a square '' @ ''number of elements.'')))
      else Inr (pdf, None))"

text \<open>Lines 67 and 68: the assertion on the result, then the return.\<close>

definition check_return :: "ndarray \<Rightarrow> axis \<Rightarrow> axis \<Rightarrow> pyerror + (ndarray \<times> axis \<times> axis)" where
  "check_return pdf x y =
     (case shape_at pdf 0 of
        Inl e \<Rightarrow> Inl e
      | Inr d0 \<Rightarrow>
          if d0 = length x then
            (case shape_at pdf 1 of
               Inl e \<Rightarrow> Inl e
             | Inr d1 \<Rightarrow> if d1 = length y then Inr (pdf, x, y) else Inl AssertionError)
          else Inl AssertionError)"

text \<open>\<^verbatim>\<open>_validate_infer_indexes(pdf, x, y, indexes=None)\<close>.\<close>

definition validate_infer_indexes ::
  "ndarray \<Rightarrow> axis option \<Rightarrow> axis option \<Rightarrow> axis option list option
     \<Rightarrow> pyerror + (ndarray \<times> axis \<times> axis)"
where
  "validate_infer_indexes pdf x0 y0 indexes =
     (case apply_indexes x0 y0 indexes of
        (None, None) \<Rightarrow>
          (case infer_shape pdf of
             Inl e \<Rightarrow> Inl e
           | Inr (pdf', None) \<Rightarrow> Inl (UnboundLocalError ''s'')
           | Inr (pdf', Some s) \<Rightarrow> check_return pdf' (linspace 0 1 s) (linspace 0 1 s))
      | (None, Some y) \<Rightarrow> Inl (TypeError ''x and y must be both set or both unset'')
      | (Some x, None) \<Rightarrow> Inl (TypeError ''x and y must be both set or both unset'')
      | (Some x, Some y) \<Rightarrow>
          if size_nd pdf \<noteq> length x * length y then
            Inl (ValueError ''shapes of x,y and pdf do not match'')
          else
            (case set_shape pdf [length x, length y] of
               Inl e \<Rightarrow> Inl e
             | Inr pdf' \<Rightarrow> check_return pdf' x y))"

section \<open>Rendering model\<close>

text \<open>
  \<^verbatim>\<open>str(n)\<close> and \<^verbatim>\<open>'{}'.format(k)\<close> on integers: decimal digits, most
  significant first, with a minus sign for a negative number.
\<close>

definition digit_char :: "nat \<Rightarrow> char" where
  "digit_char d = ''0123456789'' ! d"

fun str_nat :: "nat \<Rightarrow> string" where
  "str_nat n = (if n < 10 then [digit_char n] else str_nat (n div 10) @ [digit_char (n mod 10)])"

declare str_nat.simps [simp del]

definition str_int :: "int \<Rightarrow> string" where
  "str_int i = (if i < 0 then ''-'' @ str_nat (nat (- i)) else str_nat (nat i))"

text \<open>
  The argument \<open>k\<close> of \<^verbatim>\<open>plot_combined\<close>: one integer or a sequence of integers.
\<close>

datatype resolution = Scalar int | Sequence "int list"

fun comma_join :: "string list \<Rightarrow> string" where
  "comma_join [] = []"
| "comma_join [s] = s"
| "comma_join (s # t # ss) = s @ '', '' @ comma_join (t # ss)"

text \<open>The text \<^verbatim>\<open>format\<close> inserts for a resolution: a number, or a list display.\<close>

fun py_str :: "resolution \<Rightarrow> string" where
  "py_str (Scalar i) = str_int i"
| "py_str (Sequence ks) = ''['' @ comma_join (map str_int ks) @ '']''"

text \<open>
  \<^verbatim>\<open>template.format(v)\<close> for a template with one \<^verbatim>\<open>{}\<close> field: the field is
  replaced by the text of \<open>v\<close>.
\<close>

fun format_field :: "string \<Rightarrow> string \<Rightarrow> string" where
  "format_field [] v = []"
| "format_field (c # cs) v =
     (if c = CHR ''{'' \<and> take 1 cs = ''}'' then v @ drop 1 cs else c # format_field cs v)"

text \<open>\<^verbatim>\<open>xs[i]\<close> on a list.\<close>

definition list_getitem :: "'a list \<Rightarrow> nat \<Rightarrow> pyerror + 'a" where
  "list_getitem xs i =
     (if i < length xs then Inr (xs ! i) else Inl (IndexError ''list index out of range''))"

text \<open>
  The external routines of \<^verbatim>\<open>iso_levels\<close> and \<^verbatim>\<open>stats\<close> are parameters of the
  model. Each may raise. The level routines receive the resolution as the driver
  passes it: an element of the sequence, or the whole argument in the fallback.
\<close>

record collaborators =
  equi_value :: "ndarray \<Rightarrow> resolution \<Rightarrow> pyerror + rat list"
  equi_prob_per_level :: "ndarray \<Rightarrow> resolution \<Rightarrow> pyerror + rat list"
  equi_horizontal_prob_per_level :: "ndarray \<Rightarrow> resolution \<Rightarrow> pyerror + rat list"
  contour_level_weight :: "rat list \<Rightarrow> ndarray \<Rightarrow> pyerror + rat list"

text \<open>
  What the drivers do to the plotting surface is a trace of events, in call order.
  An axes object is named by its column in the figure created last. A drawing call
  is recorded once it has accepted its arguments.
\<close>

datatype event =
    Figure nat
  | Bar nat "string list" "rat list"
  | SetTitle nat string
  | Contour nat axis axis ndarray "rat list"
  | Show

text \<open>
  \<^verbatim>\<open>plt.subplots(nrows=1, ncols=n)\<close> squeezes its result: one column gives a
  single axes object, several give an array of them; no column is refused.
\<close>

datatype axes = SingleAxes | AxesArray nat

definition subplots :: "nat \<Rightarrow> pyerror + axes" where
  "subplots ncols =
     (if ncols = 0 then Inl (ValueError ''Number of columns must be a positive integer'')
      else if ncols = 1 then Inr SingleAxes
      else Inr (AxesArray ncols))"

text \<open>\<^verbatim>\<open>ax[i]\<close>: a single axes object does not support indexing.\<close>

definition axes_getitem :: "axes \<Rightarrow> nat \<Rightarrow> pyerror + nat" where
  "axes_getitem ax i =
     (case ax of
        SingleAxes \<Rightarrow> Inl (TypeError ''Axes object is not subscriptable'')
      | AxesArray n \<Rightarrow>
          if i < n then Inr i else Inl (IndexError ''index is out of bounds''))"

text \<open>Iterating \<open>ax\<close>, as \<^verbatim>\<open>zip(ax, ...)\<close> does.\<close>

definition axes_iter :: "axes \<Rightarrow> pyerror + nat list" where
  "axes_iter ax =
     (case ax of
        SingleAxes \<Rightarrow> Inl (TypeError ''Axes object is not iterable'')
      | AxesArray n \<Rightarrow> Inr [0..<n])"

text \<open>
  \<^verbatim>\<open>ax.bar(names, heights)\<close> broadcasts its two sequences against each other:
  they must have one length, or one of them a single element.
\<close>

definition axes_bar :: "string list \<Rightarrow> rat list \<Rightarrow> pyerror + unit" where
  "axes_bar names heights =
     (if length names = length heights \<or> length names = 1 \<or> length heights = 1 then Inr ()
      else Inl (ValueError ''shape mismatch: objects cannot be broadcast to a single shape''))"

text \<open>
  \<^verbatim>\<open>ax.contour(x, y, z)\<close> with one-dimensional \<open>x\<close> and \<open>y\<close> checks its arguments:
  \<open>z\<close> is two-dimensional and at least 2 by 2, \<open>x\<close> has one entry per column of \<open>z\<close>
  and \<open>y\<close> one per row.
\<close>

definition axes_contour :: "axis \<Rightarrow> axis \<Rightarrow> ndarray \<Rightarrow> pyerror + unit" where
  "axes_contour x y z =
     (if length (shape z) \<noteq> 2 then Inl (TypeError ''Input z must be a 2D array.'')
      else if shape z ! 0 < 2 \<or> shape z ! 1 < 2 then
        Inl (TypeError ''Input z must be at least a 2x2 array.'')
      else if length x \<noteq> shape z ! 1 then
        Inl (TypeError ''Length of x must be number of columns in z.'')
      else if length y \<noteq> shape z ! 0 then
        Inl (TypeError ''Length of y must be number of rows in z.'')
      else Inr ())"

text \<open>\<^verbatim>\<open>np.unique(levels)\<close>: the distinct values in ascending order.\<close>

definition np_unique :: "rat list \<Rightarrow> rat list" where
  "np_unique xs = sort (remdups xs)"

section \<open>Bar comparison\<close>

text \<open>Line 166: the bar names \<open>L1\<close> to \<open>L(len(levels) + 1)\<close>.\<close>

definition level_labels :: "rat list \<Rightarrow> string list" where
  "level_labels levels = map (\<lambda>i. ''L'' @ str_nat (i + 1)) [0..<length levels + 1]"

text \<open>
  Lines 162 to 168, the loop over \<^verbatim>\<open>enumerate(zip(levels_lst, pdf_lst))\<close>; \<open>i\<close> is the
  running index.
\<close>

fun bar_loop ::
  "collaborators \<Rightarrow> axes \<Rightarrow> string list \<Rightarrow> nat \<Rightarrow> (rat list \<times> ndarray) list \<Rightarrow> event list
     \<Rightarrow> (pyerror + unit) \<times> event list"
where
  "bar_loop C ax labels i [] tr = (Inr (), tr)"
| "bar_loop C ax labels i ((levels, pdf) # rest) tr =
     (case contour_level_weight C levels pdf of
        Inl e \<Rightarrow> (Inl e, tr)
      | Inr sum_prob \<Rightarrow>
          (case axes_getitem ax i of
             Inl e \<Rightarrow> (Inl e, tr)
           | Inr a \<Rightarrow>
               (case axes_bar (level_labels levels) sum_prob of
                  Inl e \<Rightarrow> (Inl e, tr)
                | Inr u \<Rightarrow>
                    (case list_getitem labels i of
                       Inl e \<Rightarrow> (Inl e, tr @ [Bar a (level_labels levels) sum_prob])
                     | Inr title \<Rightarrow>
                         bar_loop C ax labels (Suc i) rest
                           (tr @ [Bar a (level_labels levels) sum_prob, SetTitle a title])))))"

text \<open>\<^verbatim>\<open>plot_contour_levels_stat(levels_lst, pdf_lst, labels)\<close>.\<close>

definition plot_contour_levels_stat ::
  "collaborators \<Rightarrow> rat list list \<Rightarrow> ndarray list \<Rightarrow> string list \<Rightarrow> event list
     \<Rightarrow> (pyerror + unit) \<times> event list"
where
  "plot_contour_levels_stat C levels_lst pdf_lst labels tr =
     (if length levels_lst \<noteq> length pdf_lst \<or> length levels_lst \<noteq> length labels then
        (Inl (ValueError ''All arguments must be sequences of equal length.''), tr)
      else
        (let n = length levels_lst in
         case subplots n of
           Inl e \<Rightarrow> (Inl e, tr)
         | Inr ax \<Rightarrow> bar_loop C ax labels 0 (zip levels_lst pdf_lst) (tr @ [Figure n])))"

section \<open>Contour comparison\<close>

text \<open>Lines 192 to 195, the loop over \<^verbatim>\<open>zip(ax, labels, levels_lst)\<close>.\<close>

fun draw_contours ::
  "axis \<Rightarrow> axis \<Rightarrow> ndarray \<Rightarrow> (nat \<times> string \<times> rat list) list \<Rightarrow> event list
     \<Rightarrow> (pyerror + unit) \<times> event list"
where
  "draw_contours x y pdf [] tr = (Inr (), tr)"
| "draw_contours x y pdf ((a, label, levels) # rest) tr =
     (case axes_contour x y pdf of
        Inl e \<Rightarrow> (Inl e, tr)
      | Inr u \<Rightarrow>
          draw_contours x y pdf rest
            (tr @ [Contour a x y pdf (np_unique levels), SetTitle a label]))"

text \<open>\<^verbatim>\<open>contour_comparision_plot_2d(levels_lst, pdf, x, y, indexes, labels)\<close>.\<close>

definition contour_comparision_plot_2d ::
  "rat list list \<Rightarrow> ndarray \<Rightarrow> axis option \<Rightarrow> axis option \<Rightarrow> axis option list option
     \<Rightarrow> string list \<Rightarrow> event list \<Rightarrow> (pyerror + unit) \<times> event list"
where
  "contour_comparision_plot_2d levels_lst pdf x y indexes labels tr =
     (case validate_infer_indexes pdf x y indexes of
        Inl e \<Rightarrow> (Inl e, tr)
      | Inr (pdf', x', y') \<Rightarrow>
          (let n = length levels_lst in
           case subplots n of
             Inl e \<Rightarrow> (Inl e, tr)
           | Inr ax \<Rightarrow>
               (case axes_iter ax of
                  Inl e \<Rightarrow> (Inl e, tr @ [Figure n])
                | Inr axs \<Rightarrow>
                    (case draw_contours x' y' pdf' (zip axs (zip labels levels_lst))
                            (tr @ [Figure n]) of
                       (Inl e, tr') \<Rightarrow> (Inl e, tr')
                     | (Inr u, tr') \<Rightarrow> (Inr (), tr' @ [Show])))))"

section \<open>Combined driver\<close>

text \<open>Lines 210 to 213: the body of the \<^verbatim>\<open>try\<close>, one round per element of \<open>k\<close>.\<close>

fun levels_loop ::
  "collaborators \<Rightarrow> ndarray \<Rightarrow> int list
     \<Rightarrow> rat list list \<times> rat list list \<times> rat list list
     \<Rightarrow> pyerror + (rat list list \<times> rat list list \<times> rat list list)"
where
  "levels_loop C p [] acc = Inr acc"
| "levels_loop C p (ki # ks) (pdf_lvls, prob_lvls, prob_hori_lvls) =
     (case equi_value C p (Scalar ki) of
        Inl e \<Rightarrow> Inl e
      | Inr l1 \<Rightarrow>
          (case equi_prob_per_level C p (Scalar ki) of
             Inl e \<Rightarrow> Inl e
           | Inr l2 \<Rightarrow>
               (case equi_horizontal_prob_per_level C p (Scalar ki) of
                  Inl e \<Rightarrow> Inl e
                | Inr l3 \<Rightarrow>
                    levels_loop C p ks
                      (pdf_lvls @ [l1], prob_lvls @ [l2], prob_hori_lvls @ [l3]))))"

text \<open>
  The \<^verbatim>\<open>try\<close> block: iterating an integer raises \<^verbatim>\<open>TypeError\<close>. On success
  \<open>k\<close> is left as it was, a sequence.
\<close>

definition try_levels ::
  "collaborators \<Rightarrow> ndarray \<Rightarrow> resolution
     \<Rightarrow> pyerror + (rat list list \<times> rat list list \<times> rat list list \<times> resolution list)"
where
  "try_levels C p k =
     (case k of
        Scalar i \<Rightarrow> Inl (TypeError ''int object is not iterable'')
      | Sequence ks \<Rightarrow>
          (case levels_loop C p ks ([], [], []) of
             Inl e \<Rightarrow> Inl e
           | Inr (pdf_lvls, prob_lvls, prob_hori_lvls) \<Rightarrow>
               Inr (pdf_lvls, prob_lvls, prob_hori_lvls, map Scalar ks)))"

text \<open>Lines 215 to 218, the \<^verbatim>\<open>except TypeError\<close> block: \<open>k\<close> itself is the resolution.\<close>

definition scalar_levels ::
  "collaborators \<Rightarrow> ndarray \<Rightarrow> resolution
     \<Rightarrow> pyerror + (rat list list \<times> rat list list \<times> rat list list \<times> resolution list)"
where
  "scalar_levels C p k =
     (case equi_value C p k of
        Inl e \<Rightarrow> Inl e
      | Inr l1 \<Rightarrow>
          (case equi_prob_per_level C p k of
             Inl e \<Rightarrow> Inl e
           | Inr l2 \<Rightarrow>
               (case equi_horizontal_prob_per_level C p k of
                  Inl e \<Rightarrow> Inl e
                | Inr l3 \<Rightarrow> Inr ([l1], [l2], [l3], [k]))))"

text \<open>Lines 206 to 218: only a \<^verbatim>\<open>TypeError\<close> of the \<^verbatim>\<open>try\<close> block is handled.\<close>

definition generate_levels ::
  "collaborators \<Rightarrow> ndarray \<Rightarrow> resolution
     \<Rightarrow> pyerror + (rat list list \<times> rat list list \<times> rat list list \<times> resolution list)"
where
  "generate_levels C p k =
     (case try_levels C p k of
        Inr r \<Rightarrow> Inr r
      | Inl (TypeError m) \<Rightarrow> scalar_levels C p k
      | Inl e \<Rightarrow> Inl e)"

text \<open>Line 225 and line 230: the three titles for a resolution.\<close>

definition combined_labels :: "resolution \<Rightarrow> string list" where
  "combined_labels ki =
     map (\<lambda>s. format_field s (py_str ki)) [''old (k={})'', ''vertical (k={})'', ''horizonal (k={})'']"

text \<open>Lines 221 to 225: one bar comparison per resolution.\<close>

fun stat_loop ::
  "collaborators \<Rightarrow> ndarray \<Rightarrow> rat list list \<Rightarrow> rat list list \<Rightarrow> rat list list
     \<Rightarrow> nat \<Rightarrow> resolution list \<Rightarrow> event list \<Rightarrow> (pyerror + unit) \<times> event list"
where
  "stat_loop C p pdf_lvls prob_lvls prob_hori_lvls i [] tr = (Inr (), tr)"
| "stat_loop C p pdf_lvls prob_lvls prob_hori_lvls i (ki # ks) tr =
     (case list_getitem pdf_lvls i of
        Inl e \<Rightarrow> (Inl e, tr)
      | Inr l1 \<Rightarrow>
          (case list_getitem prob_lvls i of
             Inl e \<Rightarrow> (Inl e, tr)
           | Inr l2 \<Rightarrow>
               (case list_getitem prob_hori_lvls i of
                  Inl e \<Rightarrow> (Inl e, tr)
                | Inr l3 \<Rightarrow>
                    (let levels = [l1, l2, l3] in
                     case plot_contour_levels_stat C levels (replicate (length levels) p)
                            (combined_labels ki) tr of
                       (Inl e, tr') \<Rightarrow> (Inl e, tr')
                     | (Inr u, tr') \<Rightarrow>
                         stat_loop C p pdf_lvls prob_lvls prob_hori_lvls (Suc i) ks tr'))))"

text \<open>Lines 226 to 230: one contour comparison per resolution.\<close>

fun contour_loop ::
  "ndarray \<Rightarrow> axis \<Rightarrow> axis \<Rightarrow> rat list list \<Rightarrow> rat list list \<Rightarrow> rat list list
     \<Rightarrow> nat \<Rightarrow> resolution list \<Rightarrow> event list \<Rightarrow> (pyerror + unit) \<times> event list"
where
  "contour_loop p x y pdf_lvls prob_lvls prob_hori_lvls i [] tr = (Inr (), tr)"
| "contour_loop p x y pdf_lvls prob_lvls prob_hori_lvls i (ki # ks) tr =
     (case list_getitem pdf_lvls i of
        Inl e \<Rightarrow> (Inl e, tr)
      | Inr l1 \<Rightarrow>
          (case list_getitem prob_lvls i of
             Inl e \<Rightarrow> (Inl e, tr)
           | Inr l2 \<Rightarrow>
               (case list_getitem prob_hori_lvls i of
                  Inl e \<Rightarrow> (Inl e, tr)
                | Inr l3 \<Rightarrow>
                    (case contour_comparision_plot_2d [l1, l2, l3] p (Some x) (Some y) None
                            (combined_labels ki) tr of
                       (Inl e, tr') \<Rightarrow> (Inl e, tr')
                     | (Inr u, tr') \<Rightarrow>
                         contour_loop p x y pdf_lvls prob_lvls prob_hori_lvls (Suc i) ks tr'))))"

text \<open>\<^verbatim>\<open>plot_combined(p, x, y, indexes, k)\<close>.\<close>

definition plot_combined ::
  "collaborators \<Rightarrow> ndarray \<Rightarrow> axis option \<Rightarrow> axis option \<Rightarrow> axis option list option
     \<Rightarrow> resolution \<Rightarrow> event list \<Rightarrow> (pyerror + unit) \<times> event list"
where
  "plot_combined C p x y indexes k tr =
     (case validate_infer_indexes p x y indexes of
        Inl e \<Rightarrow> (Inl e, tr)
      | Inr (p', x', y') \<Rightarrow>
          (case generate_levels C p' k of
             Inl e \<Rightarrow> (Inl e, tr)
           | Inr (pdf_lvls, prob_lvls, prob_hori_lvls, ks) \<Rightarrow>
               (case stat_loop C p' pdf_lvls prob_lvls prob_hori_lvls 0 ks tr of
                  (Inl e, tr') \<Rightarrow> (Inl e, tr')
                | (Inr u, tr') \<Rightarrow>
                    contour_loop p' x' y' pdf_lvls prob_lvls prob_hori_lvls 0 ks tr')))"

text \<open>
  A stand-in for the external routines, used to run the drivers on concrete
  inputs: fixed level sets, and equal weights for the bins.
\<close>

definition stub_collaborators :: collaborators where
  "stub_collaborators =
     \<lparr>equi_value = (\<lambda>p k. Inr [2, 3]),
      equi_prob_per_level = (\<lambda>p k. Inr [1, 3]),
      equi_horizontal_prob_per_level = (\<lambda>p k. Inr [3, 1, 3]),
      contour_level_weight = (\<lambda>levels p. Inr (replicate (length levels + 1) 1))\<rparr>"

section \<open>Properties of the rounding\<close>

lemma bit_length_bounds:
  "0 < n \<Longrightarrow> 0 < bit_length n \<and> 2 ^ (bit_length n - 1) \<le> n \<and> n < 2 ^ bit_length n"
proof (induction n rule: bit_length.induct)
  case (1 n)
  from "1.prems" have bl: "bit_length n = Suc (bit_length (n div 2))"
    by (subst bit_length.simps) simp
  show ?case
  proof (cases "n div 2 = 0")
    case True
    with "1.prems" have "n = 1" by presburger
    moreover have "bit_length 0 = 0" by (subst bit_length.simps) simp
    ultimately show ?thesis using bl by simp
  next
    case False
    with "1.prems" have pos: "0 < n div 2" by presburger
    from "1.prems" have "\<not> n \<le> 0" by simp
    from "1.IH" [OF this pos]
    have b: "0 < bit_length (n div 2)"
      and lo: "2 ^ (bit_length (n div 2) - 1) \<le> n div 2"
      and hi: "n div 2 < 2 ^ bit_length (n div 2)"
      by simp_all
    from b obtain k where k: "bit_length (n div 2) = Suc k" by (cases "bit_length (n div 2)") auto
    from lo k have "(2::int) * 2 ^ k \<le> 2 * (n div 2)" by simp
    also have "\<dots> \<le> n" by presburger
    finally have lo': "(2::int) ^ Suc k \<le> n" by simp
    from hi k have "n div 2 + 1 \<le> 2 ^ Suc k" by simp
    then have "2 * (n div 2) + 2 \<le> 2 * 2 ^ Suc k" by simp
    moreover have "n < 2 * (n div 2) + 2" by presburger
    ultimately have hi': "n < 2 ^ Suc (Suc k)" by simp
    from lo' hi' show ?thesis by (simp add: bl k)
  qed
qed

lemma binary_exponent_le:
  assumes "0 < a"
  shows "2 powi binary_exponent a \<le> a"
proof -
  obtain p q where pq: "quotient_of a = (p, q)" by (cases "quotient_of a")
  then have q: "0 < q" and a: "a = of_int p / of_int q"
    by (simp_all add: quotient_of_denom_pos quotient_of_div)
  from assms a q have p: "0 < p" by (simp add: zero_less_divide_iff)
  let ?e0 = "int (bit_length p) - int (bit_length q)"
  show ?thesis
  proof (cases "2 powi ?e0 \<le> a")
    case True
    with pq show ?thesis by (simp add: binary_exponent_def)
  next
    case False
    from bit_length_bounds [OF p] obtain k where k: "bit_length p = Suc k" and lo: "2 ^ k \<le> p"
      by (cases "bit_length p") auto
    from bit_length_bounds [OF q] have hi: "q \<le> 2 ^ bit_length q" by simp
    have "(2::rat) powi (?e0 - 1) = 2 powi (int k - int (bit_length q))"
      by (simp add: k)
    also have "\<dots> = 2 ^ k / 2 ^ bit_length q"
      by (simp add: power_int_diff)
    also have "\<dots> \<le> of_int p / of_int q"
    proof -
      from lo have "(of_int (2 ^ k) :: rat) \<le> of_int p" by (simp only: of_int_le_iff)
      then have num: "(2::rat) ^ k \<le> of_int p" by simp
      from q have qpos: "(0::rat) < of_int q" by simp
      from hi have "(of_int q :: rat) \<le> of_int (2 ^ bit_length q)" by (simp only: of_int_le_iff)
      then have den: "(of_int q :: rat) \<le> 2 ^ bit_length q" by simp
      have "(2::rat) ^ k / 2 ^ bit_length q \<le> of_int p / 2 ^ bit_length q"
        using num by (simp add: divide_right_mono)
      also have "\<dots> \<le> of_int p / of_int q"
        using den qpos p by (simp add: divide_left_mono)
      finally show ?thesis .
    qed
    finally have "(2::rat) powi (?e0 - 1) \<le> a" by (simp add: a)
    with False pq show ?thesis by (simp add: binary_exponent_def)
  qed
qed

lemma round_half_even_ge_floor: "\<lfloor>x\<rfloor> \<le> round_half_even x"
  by (simp add: round_half_even_def Let_def)

lemma round_double_zero: "round_double 0 = 0"
  by (simp add: round_double_def)

lemma round_double_nonzero:
  assumes "x \<noteq> 0"
  shows "round_double x \<noteq> 0"
proof -
  let ?a = "\<bar>x\<bar>"
  let ?e = "binary_exponent ?a"
  let ?q = "(2::rat) powi (?e - 52)"
  from assms have a: "0 < ?a" by simp
  have q: "0 < ?q" by simp
  have "?q * 2 ^ 52 = 2 powi ?e"
    by (simp add: power_int_diff)
  also have "\<dots> \<le> ?a" using a by (rule binary_exponent_le)
  finally have "2 ^ 52 \<le> ?a / ?q" using q by (simp add: pos_le_divide_eq mult.commute)
  moreover have "(1::rat) \<le> 2 ^ 52" by simp
  ultimately have "1 \<le> ?a / ?q" by (rule order_trans [rotated])
  then have "1 \<le> \<lfloor>?a / ?q\<rfloor>" by (simp only: le_floor_iff of_int_1)
  with round_half_even_ge_floor [of "?a / ?q"] have "0 < round_half_even (?a / ?q)" by linarith
  with assms q show ?thesis by (simp add: round_double_def Let_def sgn_eq_0_iff)
qed

lemma round_double_one: "round_double 1 = 1"
  by code_simp

lemma binary_exponent_less:
  assumes "0 < a"
  shows "a < 2 powi (binary_exponent a + 1)"
proof -
  obtain p q where pq: "quotient_of a = (p, q)" by (cases "quotient_of a")
  then have q: "0 < q" and a: "a = of_int p / of_int q"
    by (simp_all add: quotient_of_denom_pos quotient_of_div)
  from assms a q have p: "0 < p" by (simp add: zero_less_divide_iff)
  let ?e0 = "int (bit_length p) - int (bit_length q)"
  show ?thesis
  proof (cases "2 powi ?e0 \<le> a")
    case True
    from bit_length_bounds [OF p] have hi: "p < 2 ^ bit_length p" by simp
    from bit_length_bounds [OF q] obtain k where k: "bit_length q = Suc k" and lo: "2 ^ k \<le> q"
      by (cases "bit_length q") auto
    from hi have "(of_int p :: rat) < of_int (2 ^ bit_length p)" by (simp only: of_int_less_iff)
    then have num: "(of_int p :: rat) < 2 ^ bit_length p" by simp
    from lo have "(of_int (2 ^ k) :: rat) \<le> of_int q" by (simp only: of_int_le_iff)
    then have den: "(2::rat) ^ k \<le> of_int q" by simp
    from q have qpos: "(0::rat) < of_int q" by simp
    have "of_int p / of_int q < (2::rat) ^ bit_length p / of_int q"
      using num qpos by (simp add: divide_strict_right_mono)
    also have "\<dots> \<le> 2 ^ bit_length p / 2 ^ k"
      using qpos by (intro divide_left_mono [OF den]) simp_all
    also have "\<dots> = 2 powi (int (bit_length p) - int k)"
      by (simp add: power_int_diff)
    also have "\<dots> = 2 powi (?e0 + 1)" by (simp add: k)
    finally have "a < 2 powi (?e0 + 1)" by (simp add: a)
    with True pq show ?thesis by (simp add: binary_exponent_def)
  next
    case False
    with pq show ?thesis by (simp add: binary_exponent_def)
  qed
qed

lemma round_half_even_near: "\<bar>of_int (round_half_even y) - y\<bar> \<le> 1 / 2"
proof -
  have "of_int \<lfloor>y\<rfloor> \<le> y" and "y < of_int \<lfloor>y\<rfloor> + 1" by linarith+
  then show ?thesis by (auto simp: round_half_even_def Let_def)
qed

text \<open>The rounded value lies within half a unit in the last place of its argument.\<close>

lemma round_double_near:
  assumes "x \<noteq> 0"
  shows "\<bar>round_double x - x\<bar> \<le> 2 powi (binary_exponent \<bar>x\<bar> - 53)"
proof -
  let ?q = "(2::rat) powi (binary_exponent \<bar>x\<bar> - 52)"
  let ?m = "round_half_even (\<bar>x\<bar> / ?q)"
  have q: "0 < ?q" by simp
  have "sgn x * \<bar>x\<bar> = x" by (rule mult_sgn_abs)
  then have "round_double x - x = sgn x * (of_int ?m * ?q - \<bar>x\<bar>)"
    using assms by (simp add: round_double_def Let_def right_diff_distrib mult.assoc)
  also have "of_int ?m * ?q - \<bar>x\<bar> = (of_int ?m - \<bar>x\<bar> / ?q) * ?q"
    using q by (simp add: algebra_simps)
  finally have "\<bar>round_double x - x\<bar> = \<bar>of_int ?m - \<bar>x\<bar> / ?q\<bar> * ?q"
    using assms q by (simp add: abs_mult abs_sgn_eq)
  also have "\<dots> \<le> 1 / 2 * ?q"
    using round_half_even_near [of "\<bar>x\<bar> / ?q"] q by (intro mult_right_mono) simp_all
  also have "\<dots> = 2 powi (binary_exponent \<bar>x\<bar> - 53)"
    by (simp add: power_int_diff)
  finally show ?thesis .
qed

section \<open>Properties of shape assignment\<close>

lemma int_sqrt_bounds: "int_sqrt n * int_sqrt n \<le> n \<and> n < (int_sqrt n + 1) * (int_sqrt n + 1)"
  by (induction n) (auto simp: Let_def)

lemma int_sqrt_square: "int_sqrt (s * s) = s"
proof -
  let ?r = "int_sqrt (s * s)"
  have lo: "?r * ?r \<le> s * s" and hi: "s * s < (?r + 1) * (?r + 1)"
    using int_sqrt_bounds [of "s * s"] by simp_all
  have "?r \<le> s"
  proof (rule ccontr)
    assume "\<not> ?r \<le> s"
    then have "s + 1 \<le> ?r" by simp
    then have "(s + 1) * (s + 1) \<le> ?r * ?r" by (intro mult_le_mono)
    with lo show False by simp
  qed
  moreover have "s \<le> ?r"
  proof (rule ccontr)
    assume "\<not> s \<le> ?r"
    then have "?r + 1 \<le> s" by simp
    then have "(?r + 1) * (?r + 1) \<le> s * s" by (intro mult_le_mono)
    with hi show False by simp
  qed
  ultimately show ?thesis by simp
qed

lemma set_shape_shape: "set_shape a shp = Inr a' \<Longrightarrow> shape a' = shp"
  by (auto simp: set_shape_def split: if_splits option.splits)

lemma set_shape_same: "set_shape a (shape a) = Inr a"
  by (simp add: set_shape_def)

lemma set_shape_cases:
  "prod_list shp = size_nd a \<Longrightarrow>
     (\<exists>sts. set_shape a shp = Inr (a\<lparr>shape := shp, strides := sts\<rparr>))
     \<or> set_shape a shp = Inl (AttributeError ''incompatible shape for a non-contiguous array'')"
proof (cases "shp = shape a")
  case True
  then have "set_shape a shp = Inr (a\<lparr>shape := shp, strides := strides a\<rparr>)"
    by (simp add: set_shape_def)
  then show ?thesis by blast
next
  case False
  assume "prod_list shp = size_nd a"
  with False show ?thesis
    by (cases "attempt_nocopy_reshape a shp") (auto simp: set_shape_def)
qed

lemma set_shape_contiguous:
  "prod_list shp = size_nd a \<Longrightarrow> is_c_contiguous a \<or> shape a = shp \<Longrightarrow>
     \<exists>sts. set_shape a shp = Inr (a\<lparr>shape := shp, strides := sts\<rparr>)"
proof (cases "shp = shape a")
  case True
  then have "set_shape a shp = Inr (a\<lparr>shape := shp, strides := strides a\<rparr>)"
    by (simp add: set_shape_def)
  then show ?thesis by blast
next
  case False
  assume "prod_list shp = size_nd a" and "is_c_contiguous a \<or> shape a = shp"
  with False show ?thesis by (auto simp: set_shape_def)
qed

lemma nocopy_split_flat:
  assumes "shape a = [m * n]"
  shows "is_c_contiguous a \<or> attempt_nocopy_reshape a [m, n] \<noteq> None"
proof (cases "m * n = 0 \<or> m * n = 1")
  case True
  then show ?thesis
  proof
    assume "m * n = 0"
    with assms show ?thesis by (simp add: is_c_contiguous_def)
  next
    assume "m * n = 1"
    with assms show ?thesis by (cases "strides a") (simp_all add: is_c_contiguous_def)
  qed
next
  case False
  define k where "k = m * n"
  from False have "\<not> (k = 0 \<or> k = 1)" unfolding k_def .
  then have "2 \<le> k" by arith
  then have big: "2 \<le> m * n" unfolding k_def .
  then have m: "0 < m" and n: "0 < n" by (auto intro: Nat.gr0I)
  show ?thesis
  proof (cases "strides a")
    case Nil
    with assms show ?thesis by (simp add: attempt_nocopy_reshape_def)
  next
    case (Cons st sts)
    from big have "m * n \<noteq> 1" by arith
    with assms Cons have olds:
      "filter (\<lambda>(d, st). d \<noteq> 1) (zip (shape a) (strides a)) = [(m * n, st)]"
      by (simp del: mult_eq_1_iff One_nat_def)
    have g: "grow m [n] (m * n) [] \<noteq> None \<and>
              (\<forall>i j. grow m [n] (m * n) [] = Some (i, j) \<longrightarrow> j = 0)"
    proof (cases "m = m * n")
      case True
      then show ?thesis by (subst grow.simps, subst (2) grow.simps) simp
    next
      case False
      with m n have "m < m * n" by (cases n) auto
      moreover have "grow (m * n) [] (m * n) [] = Some (0, 0)" by (subst grow.simps) simp
      ultimately show ?thesis by (subst grow.simps, subst (2) grow.simps) simp
    qed
    then obtain i where gi: "grow m [n] (m * n) [] = Some (i, 0)" by (cases "grow m [n] (m * n) []") auto
    have "regroup (drop i [n]) [] acc \<noteq> None" for acc
      by (cases "drop i [n]") simp_all
    with gi olds show ?thesis
      by (simp add: attempt_nocopy_reshape_def)
  qed
qed

lemma set_shape_flat:
  assumes "shape a = [m * n]"
  shows "\<exists>sts. set_shape a [m, n] = Inr (a\<lparr>shape := [m, n], strides := sts\<rparr>)"
proof -
  from assms have ne: "[m, n] \<noteq> shape a" and cnt: "prod_list [m, n] = size_nd a"
    by (simp_all add: size_nd_def)
  from nocopy_split_flat [OF assms] show ?thesis
  proof
    assume "is_c_contiguous a"
    with ne cnt show ?thesis by (auto simp: set_shape_def)
  next
    assume "attempt_nocopy_reshape a [m, n] \<noteq> None"
    with ne cnt show ?thesis by (cases "is_c_contiguous a") (auto simp: set_shape_def)
  qed
qed

lemma nocopy_split_flat_strides:
  assumes shp: "shape a = [m * n]" and sts: "strides a = [st]" and nc: "\<not> is_c_contiguous a"
  shows "attempt_nocopy_reshape a [m, n] = Some [st * int n, st]"
proof -
  from shp nc have "m * n \<noteq> 0" by (auto simp: is_c_contiguous_def)
  moreover from shp sts nc have "m * n \<noteq> 1" by (auto simp: is_c_contiguous_def)
  ultimately have m: "0 < m" and n: "0 < n" and ne1: "m * n \<noteq> 1" by auto
  from shp sts ne1 have olds:
    "filter (\<lambda>(d, st). d \<noteq> 1) (zip (shape a) (strides a)) = [(m * n, st)]"
    by (simp del: mult_eq_1_iff One_nat_def)
  show ?thesis
  proof (cases "m = m * n")
    case True
    with m have n1: "n = 1" by simp
    from True have "grow m [n] (m * n) [] = Some (0, 0)" by (subst grow.simps) simp
    with olds n1 show ?thesis by (simp add: attempt_nocopy_reshape_def)
  next
    case False
    with m n have lt: "m < m * n" by (cases n) auto
    have "grow (m * n) [] (m * n) [] = Some (0, 0)" by (subst grow.simps) simp
    with lt False have "grow m [n] (m * n) [] = Some (1, 0)" by (subst grow.simps) simp
    with olds show ?thesis by (simp add: attempt_nocopy_reshape_def mult.commute)
  qed
qed

lemma set_shape_flat_strides:
  assumes "shape a = [m * n]" and "strides a = [st]"
  shows "set_shape a [m, n]
           = Inr (a\<lparr>shape := [m, n],
                    strides := (if is_c_contiguous a then c_strides [m, n]
                                else [st * int n, st])\<rparr>)"
proof -
  from assms(1) have ne: "[m, n] \<noteq> shape a" and cnt: "prod_list [m, n] = size_nd a"
    by (simp_all add: size_nd_def)
  show ?thesis
  proof (cases "is_c_contiguous a")
    case True
    with ne cnt show ?thesis by (simp add: set_shape_def)
  next
    case False
    from nocopy_split_flat_strides [OF assms False] False ne cnt show ?thesis
      by (simp add: set_shape_def)
  qed
qed

lemma set_shape_packed:
  "prod_list shp = size_nd a \<Longrightarrow> is_c_contiguous a \<Longrightarrow> shp \<noteq> shape a \<Longrightarrow>
     set_shape a shp = Inr (a\<lparr>shape := shp, strides := c_strides shp\<rparr>)"
  by (simp add: set_shape_def)

section \<open>Properties of the normalisation\<close>

lemma length_linspace: "length (linspace a b n) = n"
  by (simp add: linspace_def Let_def)

lemma linspace_unit_single: "linspace 0 1 1 = [0]"
  by (simp add: linspace_def Let_def round_double_zero)

lemma linspace_unit_step:
  assumes "2 \<le> s"
  shows "linspace 0 1 s =
           (map (\<lambda>i. round_double (round_double (of_nat i * round_double (1 / of_nat (s - 1)))))
              [0..<s]) [s - 1 := 1]"
proof -
  from assms have "(1::rat) / of_nat (s - 1) \<noteq> 0" by simp
  then have "round_double (1 / of_nat (s - 1)) \<noteq> 0" by (rule round_double_nonzero)
  with assms show ?thesis
    by (simp add: linspace_def Let_def round_double_one o_def)
qed

lemma linspace_unit_nth:
  "i + 1 < s \<Longrightarrow>
     linspace 0 1 s ! i
       = round_double (round_double (of_nat i * round_double (1 / of_nat (s - 1))))"
  by (simp add: linspace_unit_step)

lemma linspace_unit_hd: "2 \<le> s \<Longrightarrow> hd (linspace 0 1 s) = 0"
proof -
  assume s: "2 \<le> s"
  then have "hd (linspace 0 1 s) = linspace 0 1 s ! 0"
    by (simp add: hd_conv_nth length_linspace flip: length_0_conv)
  also from s have "\<dots> = 0" by (simp add: linspace_unit_nth round_double_zero)
  finally show ?thesis .
qed

lemma linspace_unit_last: "2 \<le> s \<Longrightarrow> last (linspace 0 1 s) = 1"
proof -
  assume s: "2 \<le> s"
  then have "last (linspace 0 1 s) = linspace 0 1 s ! (s - 1)"
    by (simp add: last_conv_nth length_linspace flip: length_0_conv)
  also from s have "\<dots> = 1" by (simp add: linspace_unit_step)
  finally show ?thesis .
qed

lemma linspace_unit_two: "linspace 0 1 2 = [0, 1]"
  by code_simp

lemma linspace_unit_four:
  "linspace 0 1 4 = [0, 6004799503160661 / 2 ^ 54, 6004799503160661 / 2 ^ 53, 1]"
  by code_simp

lemma five_not_square: "\<forall>s::nat. 5 \<noteq> s * s"
proof
  fix s :: nat
  show "5 \<noteq> s * s"
  proof (cases "s \<le> 2")
    case True
    then have "s * s \<le> 2 * 2" by (intro mult_le_mono)
    then show ?thesis by simp
  next
    case False
    then have "3 * 3 \<le> s * s" by (intro mult_le_mono) simp_all
    then show ?thesis by simp
  qed
qed

lemma check_return_ok:
  "shape g = [length xa, length ya] \<Longrightarrow> check_return g xa ya = Inr (g, xa, ya)"
  by (simp add: check_return_def shape_at_def)

lemma check_return_shape:
  "check_return g xa ya = Inr (g', xa', ya') \<Longrightarrow>
     g' = g \<and> xa' = xa \<and> ya' = ya \<and> length (shape g) \<ge> 2 \<and> shape g ! 0 = length xa \<and> shape g ! 1 = length ya"
  by (auto simp: check_return_def shape_at_def split: if_splits sum.splits)

lemma infer_shape_bound: "infer_shape pdf = Inr (pdf', Some s) \<Longrightarrow> shape pdf' = [s, s]"
  by (auto simp: infer_shape_def Let_def dest: set_shape_shape split: if_splits sum.splits)

lemma two_dim_unset_unbound:
  "length (shape pdf) = 2 \<Longrightarrow>
     validate_infer_indexes pdf None None None = Inl (UnboundLocalError ''s'')"
  by (simp add: validate_infer_indexes_def apply_indexes_def infer_shape_def)

lemma flat_unset_square:
  assumes "shape pdf = [s * s]" and "strides pdf = [st]"
  shows "validate_infer_indexes pdf None None None
           = Inr (pdf\<lparr>shape := [s, s],
                      strides := (if is_c_contiguous pdf then c_strides [s, s]
                                  else [st * int s, st])\<rparr>,
                  linspace 0 1 s, linspace 0 1 s)"
  using assms(1) set_shape_flat_strides [OF assms]
  by (simp add: validate_infer_indexes_def apply_indexes_def infer_shape_def int_sqrt_square
        power2_eq_square check_return_ok length_linspace)

lemma flat_unset_nonsquare:
  "shape pdf = [n] \<Longrightarrow> \<forall>s. n \<noteq> s * s \<Longrightarrow>
     validate_infer_indexes pdf None None None
       = Inl (ValueError ''Cannot infer shape of flattened data array pdf since it does not have a square number of elements.'')"
proof -
  assume shp: "shape pdf = [n]" and nonsq: "\<forall>s. n \<noteq> s * s"
  from nonsq have "int_sqrt n * int_sqrt n \<noteq> n" by metis
  with shp show ?thesis
    by (simp add: validate_infer_indexes_def apply_indexes_def infer_shape_def Let_def
          power2_eq_square)
qed

lemma validate_shape_matches:
  assumes "validate_infer_indexes pdf x y indexes = Inr (g, xa, ya)"
  shows "shape g = [length xa, length ya]"
proof (cases "apply_indexes x y indexes")
  case (Pair x' y')
  show ?thesis
  proof (cases x'; cases y')
    assume "x' = None" and "y' = None"
    with Pair assms obtain pdf' s where inf: "infer_shape pdf = Inr (pdf', Some s)"
      and chk: "check_return pdf' (linspace 0 1 s) (linspace 0 1 s) = Inr (g, xa, ya)"
      by (auto simp: validate_infer_indexes_def split: sum.splits option.splits)
    from inf have "shape pdf' = [s, s]" by (rule infer_shape_bound)
    moreover from chk have "g = pdf'" and "xa = linspace 0 1 s" and "ya = linspace 0 1 s"
      by (auto dest: check_return_shape)
    ultimately show ?thesis by (simp add: length_linspace)
  next
    fix ys assume "x' = None" and "y' = Some ys"
    with Pair assms show ?thesis by (simp add: validate_infer_indexes_def)
  next
    fix xs assume "x' = Some xs" and "y' = None"
    with Pair assms show ?thesis by (simp add: validate_infer_indexes_def)
  next
    fix xs ys assume "x' = Some xs" and "y' = Some ys"
    with Pair assms obtain pdf' where st: "set_shape pdf [length xs, length ys] = Inr pdf'"
      and chk: "check_return pdf' xs ys = Inr (g, xa, ya)"
      by (auto simp: validate_infer_indexes_def split: sum.splits if_splits)
    from st have "shape pdf' = [length xs, length ys]" by (rule set_shape_shape)
    moreover from chk have "g = pdf'" and "xa = xs" and "ya = ys"
      by (auto dest: check_return_shape)
    ultimately show ?thesis by simp
  qed
qed

lemma axes_given_mismatch:
  "length xs * length ys \<noteq> size_nd pdf \<Longrightarrow>
     validate_infer_indexes pdf (Some xs) (Some ys) None
       = Inl (ValueError ''shapes of x,y and pdf do not match'')"
  by (auto simp: validate_infer_indexes_def apply_indexes_def)

lemma axes_given_set_shape:
  "length xs * length ys = size_nd pdf \<Longrightarrow>
     set_shape pdf [length xs, length ys] = Inr g \<Longrightarrow>
     validate_infer_indexes pdf (Some xs) (Some ys) None = Inr (g, xs, ys)"
  by (auto simp: validate_infer_indexes_def apply_indexes_def check_return_ok
        dest: set_shape_shape)

lemma axes_given_refused:
  "length xs * length ys = size_nd pdf \<Longrightarrow>
     set_shape pdf [length xs, length ys] = Inl e \<Longrightarrow>
     validate_infer_indexes pdf (Some xs) (Some ys) None = Inl e"
  by (auto simp: validate_infer_indexes_def apply_indexes_def)

section \<open>Claims about grid normalisation\<close>

text \<open>
  C1. The claim: for every two-dimensional pdf with \<open>x\<close>, \<open>y\<close> and \<open>indexes\<close> unset,
  normalisation succeeds, keeps the shape and returns evenly spaced axes over
  \<open>[0, 1]\<close> matching the two dimensions. The code does not do this: the
  two-dimensional branch (line 44) binds no side length, and line 56 then reads the
  local \<open>s\<close>, so the call raises \<^verbatim>\<open>UnboundLocalError\<close>. Evaluated on the 2 by 2
  grid \<open>[[1, 2], [3, 4]]\<close> (lemma \<open>two_dim_unset_unbound\<close> is the general fact).
\<close>

theorem C1_two_dim_unset_fails:
  "validate_infer_indexes \<lparr>shape = [2, 2], strides = [2, 1], data = [1, 2, 3, 4]\<rparr> None None None
     = Inl (UnboundLocalError ''s'')"
  by (simp add: validate_infer_indexes_def apply_indexes_def infer_shape_def)

text \<open>
  C2, as amended. For a one-dimensional pdf of \<open>n\<close> elements and no axes,
  normalisation succeeds exactly when \<open>n\<close> is a perfect square \<open>s * s\<close>. It then
  returns the pdf with shape \<open>(s, s)\<close> and two axes of \<open>s\<close> evenly spaced points:
  each point before the last is a multiple of one step, rounded as NumPy rounds
  it. The axes run from 0 to 1 when \<open>s\<close> is at least 2; a single point is 0. When
  \<open>n\<close> is no perfect square the call fails with the shape-inference error.
\<close>

theorem C2_flat_unset:
  assumes "shape pdf = [n]" and "strides pdf = [st]"
  shows "(\<forall>s. n = s * s \<longrightarrow>
            validate_infer_indexes pdf None None None
              = Inr (pdf\<lparr>shape := [s, s],
                         strides := (if is_c_contiguous pdf then c_strides [s, s]
                                     else [st * int s, st])\<rparr>,
                     linspace 0 1 s, linspace 0 1 s)
            \<and> length (linspace 0 1 s) = s
            \<and> (\<forall>i. i + 1 < s \<longrightarrow>
                   linspace 0 1 s ! i
                     = round_double (round_double (of_nat i * round_double (1 / of_nat (s - 1)))))
            \<and> (2 \<le> s \<longrightarrow> hd (linspace 0 1 s) = 0 \<and> last (linspace 0 1 s) = 1)
            \<and> (s = 1 \<longrightarrow> linspace 0 1 s = [0]))
       \<and> ((\<forall>s. n \<noteq> s * s) \<longrightarrow>
            validate_infer_indexes pdf None None None
              = Inl (ValueError ''Cannot infer shape of flattened data array pdf since it does not have a square number of elements.''))"
proof (intro conjI allI impI)
  fix s assume n: "n = s * s"
  with assms have "shape pdf = [s * s]" by simp
  then show "validate_infer_indexes pdf None None None
              = Inr (pdf\<lparr>shape := [s, s],
                         strides := (if is_c_contiguous pdf then c_strides [s, s]
                                     else [st * int s, st])\<rparr>,
                     linspace 0 1 s, linspace 0 1 s)"
    using assms(2) by (rule flat_unset_square)
next
  fix s show "length (linspace 0 1 s) = s" by (rule length_linspace)
next
  fix s i :: nat assume "i + 1 < s"
  then show "linspace 0 1 s ! i
               = round_double (round_double (of_nat i * round_double (1 / of_nat (s - 1))))"
    by (rule linspace_unit_nth)
next
  fix s :: nat assume "2 \<le> s"
  then show "hd (linspace 0 1 s) = 0" by (rule linspace_unit_hd)
next
  fix s :: nat assume "2 \<le> s"
  then show "last (linspace 0 1 s) = 1" by (rule linspace_unit_last)
next
  fix s :: nat assume "s = 1"
  then show "linspace 0 1 s = [0]" by (simp only: linspace_unit_single)
next
  assume "\<forall>s. n \<noteq> s * s"
  with assms show "validate_infer_indexes pdf None None None
              = Inl (ValueError ''Cannot infer shape of flattened data array pdf since it does not have a square number of elements.'')"
    by (simp add: flat_unset_nonsquare)
qed

theorem C2_witness:
  "shape \<lparr>shape = [4], strides = [1], data = [1, 2, 3, 4]\<rparr> = [4]
   \<and> strides \<lparr>shape = [4], strides = [1], data = [1 :: rat, 2, 3, 4]\<rparr> = [1]
   \<and> (4::nat) = 2 * 2
   \<and> validate_infer_indexes \<lparr>shape = [4], strides = [1], data = [1, 2, 3, 4]\<rparr> None None None
       = Inr (\<lparr>shape = [2, 2], strides = [2, 1], data = [1, 2, 3, 4]\<rparr>, [0, 1], [0, 1])
   \<and> (0::nat) + 1 < 2
   \<and> linspace 0 1 2 ! 0 = round_double (round_double (of_nat 0 * round_double (1 / of_nat (2 - 1))))
   \<and> hd (linspace 0 1 2) = 0 \<and> last (linspace 0 1 2) = 1
   \<and> shape \<lparr>shape = [5], strides = [1], data = [1, 2, 3, 4, 5]\<rparr> = [5] \<and> (\<forall>s::nat. 5 \<noteq> s * s)
   \<and> validate_infer_indexes \<lparr>shape = [5], strides = [1], data = [1, 2, 3, 4, 5]\<rparr> None None None
       = Inl (ValueError ''Cannot infer shape of flattened data array pdf since it does not have a square number of elements.'')"
proof -
  let ?p = "\<lparr>shape = [4], strides = [1], data = [1 :: rat, 2, 3, 4]\<rparr>"
  let ?p5 = "\<lparr>shape = [5], strides = [1], data = [1 :: rat, 2, 3, 4, 5]\<rparr>"
  have shp: "shape ?p = [4]" and sts: "strides ?p = [1]" by simp_all
  have four: "(4::nat) = 2 * 2" by simp
  have cc: "is_c_contiguous ?p" by (simp add: is_c_contiguous_def)
  note sq = C2_flat_unset [OF shp sts, THEN conjunct1, THEN spec, THEN mp, OF four]
  from sq have "validate_infer_indexes ?p None None None
       = Inr (?p\<lparr>shape := [2, 2],
                  strides := (if is_c_contiguous ?p then c_strides [2, 2] else [1 * int 2, 1])\<rparr>,
              linspace 0 1 2, linspace 0 1 2)"
    by (rule conjunct1)
  with cc have ok: "validate_infer_indexes ?p None None None
       = Inr (\<lparr>shape = [2, 2], strides = [2, 1], data = [1, 2, 3, 4]\<rparr>, [0, 1], [0, 1])"
    by (simp add: linspace_unit_two)
  have lt: "(0::nat) + 1 < 2" by simp
  from sq have "\<forall>i. i + 1 < (2::nat) \<longrightarrow>
      linspace 0 1 2 ! i = round_double (round_double (of_nat i * round_double (1 / of_nat (2 - 1))))"
    by (rule conjunct1 [OF conjunct2 [OF conjunct2]])
  with lt have pt: "linspace 0 1 2 ! 0
      = round_double (round_double (of_nat 0 * round_double (1 / of_nat (2 - 1))))"
    by blast
  from sq have "2 \<le> (2::nat) \<longrightarrow> hd (linspace 0 1 2) = 0 \<and> last (linspace 0 1 2) = 1"
    by (rule conjunct1 [OF conjunct2 [OF conjunct2 [OF conjunct2]]])
  then have ends: "hd (linspace 0 1 2) = 0 \<and> last (linspace 0 1 2) = 1" by simp
  have shp5: "shape ?p5 = [5]" and sts5: "strides ?p5 = [1]" by simp_all
  note bad = C2_flat_unset [OF shp5 sts5, THEN conjunct2, THEN mp, OF five_not_square]
  from shp sts four ok lt pt ends shp5 five_not_square bad show ?thesis by blast
qed

text \<open>
  C2 as stated fails at a pdf of one element: normalisation succeeds with the 1 by 1
  grid, and each axis is the single point 0, which does not reach 1 and so does
  not span \<open>[0, 1]\<close>.
\<close>

theorem C2_single_point_counterexample:
  "validate_infer_indexes \<lparr>shape = [1], strides = [1], data = [7]\<rparr> None None None
     = Inr (\<lparr>shape = [1, 1], strides = [1, 1], data = [7]\<rparr>, [0], [0])
   \<and> last [0 :: rat] \<noteq> 1"
  by code_simp

text \<open>
  C3, as amended. With both axes supplied and \<open>len(x) * len(y)\<close> different from the
  element count of the pdf, normalisation fails with the shape-mismatch error.
  With the two equal, it returns the pdf with shape \<open>(len(x), len(y))\<close> and the
  axes as given, for every pdf that is C-contiguous, one-dimensional or already
  of that shape. In general the shape assignment of line 65 decides: the call
  succeeds in this way when the pdf has that shape, is C-contiguous or can be
  reshaped without a copy, and fails with \<^verbatim>\<open>AttributeError\<close> when none of
  these holds.
\<close>

theorem C3_axes_given:
  "(length xs * length ys \<noteq> size_nd pdf \<longrightarrow>
      validate_infer_indexes pdf (Some xs) (Some ys) None
        = Inl (ValueError ''shapes of x,y and pdf do not match''))
   \<and> (length xs * length ys = size_nd pdf \<and> shape pdf = [length xs, length ys]
      \<longrightarrow> validate_infer_indexes pdf (Some xs) (Some ys) None = Inr (pdf, xs, ys))
   \<and> (length xs * length ys = size_nd pdf \<and> shape pdf \<noteq> [length xs, length ys]
        \<and> is_c_contiguous pdf
      \<longrightarrow> validate_infer_indexes pdf (Some xs) (Some ys) None
            = Inr (pdf\<lparr>shape := [length xs, length ys],
                       strides := c_strides [length xs, length ys]\<rparr>, xs, ys))
   \<and> (length xs * length ys = size_nd pdf \<and> length (shape pdf) = 1
        \<and> length (strides pdf) = 1 \<and> \<not> is_c_contiguous pdf
      \<longrightarrow> validate_infer_indexes pdf (Some xs) (Some ys) None
            = Inr (pdf\<lparr>shape := [length xs, length ys],
                       strides := [hd (strides pdf) * int (length ys), hd (strides pdf)]\<rparr>,
                   xs, ys))
   \<and> (length xs * length ys = size_nd pdf
      \<longrightarrow> (if shape pdf = [length xs, length ys] \<or> is_c_contiguous pdf
                \<or> attempt_nocopy_reshape pdf [length xs, length ys] \<noteq> None
           then \<exists>sts. validate_infer_indexes pdf (Some xs) (Some ys) None
                  = Inr (pdf\<lparr>shape := [length xs, length ys], strides := sts\<rparr>, xs, ys)
           else validate_infer_indexes pdf (Some xs) (Some ys) None
                  = Inl (AttributeError ''incompatible shape for a non-contiguous array'')))"
proof (intro conjI impI)
  assume "length xs * length ys \<noteq> size_nd pdf"
  then show "validate_infer_indexes pdf (Some xs) (Some ys) None
        = Inl (ValueError ''shapes of x,y and pdf do not match'')"
    by (rule axes_given_mismatch)
next
  assume h: "length xs * length ys = size_nd pdf \<and> shape pdf = [length xs, length ys]"
  then have "set_shape pdf [length xs, length ys] = Inr pdf" by (simp add: set_shape_def)
  with h show "validate_infer_indexes pdf (Some xs) (Some ys) None = Inr (pdf, xs, ys)"
    by (intro axes_given_set_shape) simp_all
next
  assume h: "length xs * length ys = size_nd pdf \<and> shape pdf \<noteq> [length xs, length ys]
        \<and> is_c_contiguous pdf"
  then have "set_shape pdf [length xs, length ys]
               = Inr (pdf\<lparr>shape := [length xs, length ys],
                          strides := c_strides [length xs, length ys]\<rparr>)"
    by (intro set_shape_packed) auto
  with h show "validate_infer_indexes pdf (Some xs) (Some ys) None
            = Inr (pdf\<lparr>shape := [length xs, length ys],
                       strides := c_strides [length xs, length ys]\<rparr>, xs, ys)"
    by (intro axes_given_set_shape) simp_all
next
  assume h: "length xs * length ys = size_nd pdf \<and> length (shape pdf) = 1
        \<and> length (strides pdf) = 1 \<and> \<not> is_c_contiguous pdf"
  then have cnt: "length xs * length ys = size_nd pdf" by blast
  from h obtain n where n: "shape pdf = [n]" by (cases "shape pdf") auto
  from h obtain st where st: "strides pdf = [st]" by (cases "strides pdf") auto
  from n cnt have "shape pdf = [length xs * length ys]" by (simp add: size_nd_def)
  from set_shape_flat_strides [OF this st] h st
  have "set_shape pdf [length xs, length ys]
          = Inr (pdf\<lparr>shape := [length xs, length ys],
                     strides := [hd (strides pdf) * int (length ys), hd (strides pdf)]\<rparr>)"
    by simp
  from axes_given_set_shape [OF cnt this]
  show "validate_infer_indexes pdf (Some xs) (Some ys) None
            = Inr (pdf\<lparr>shape := [length xs, length ys],
                       strides := [hd (strides pdf) * int (length ys), hd (strides pdf)]\<rparr>,
                   xs, ys)" .
next
  assume cnt: "length xs * length ys = size_nd pdf"
  then have prod: "prod_list [length xs, length ys] = size_nd pdf" by simp
  let ?shp = "[length xs, length ys]"
  show "if shape pdf = ?shp \<or> is_c_contiguous pdf \<or> attempt_nocopy_reshape pdf ?shp \<noteq> None
        then \<exists>sts. validate_infer_indexes pdf (Some xs) (Some ys) None
                  = Inr (pdf\<lparr>shape := ?shp, strides := sts\<rparr>, xs, ys)
        else validate_infer_indexes pdf (Some xs) (Some ys) None
                  = Inl (AttributeError ''incompatible shape for a non-contiguous array'')"
  proof (cases "shape pdf = ?shp \<or> is_c_contiguous pdf \<or> attempt_nocopy_reshape pdf ?shp \<noteq> None")
    case True
    have "\<exists>sts. set_shape pdf ?shp = Inr (pdf\<lparr>shape := ?shp, strides := sts\<rparr>)"
    proof (cases "is_c_contiguous pdf \<or> shape pdf = ?shp")
      case True
      with prod show ?thesis by (intro set_shape_contiguous)
    next
      case False
      with True obtain sts where "attempt_nocopy_reshape pdf ?shp = Some sts" by auto
      with False prod have "set_shape pdf ?shp = Inr (pdf\<lparr>shape := ?shp, strides := sts\<rparr>)"
        by (auto simp: set_shape_def)
      then show ?thesis by blast
    qed
    then obtain sts where "set_shape pdf ?shp = Inr (pdf\<lparr>shape := ?shp, strides := sts\<rparr>)"
      by blast
    from axes_given_set_shape [OF cnt this] True show ?thesis by auto
  next
    case False
    with prod have "set_shape pdf ?shp
                      = Inl (AttributeError ''incompatible shape for a non-contiguous array'')"
      by (auto simp: set_shape_def)
    from axes_given_refused [OF cnt this] False show ?thesis by auto
  qed
qed

theorem C3_witness:
  "length [0, 1, 2 :: rat] * length [0, 1 :: rat]
      \<noteq> size_nd \<lparr>shape = [5], strides = [1], data = [1, 2, 3, 4, 5]\<rparr>
   \<and> validate_infer_indexes \<lparr>shape = [5], strides = [1], data = [1, 2, 3, 4, 5]\<rparr>
         (Some [0, 1, 2]) (Some [0, 1]) None
       = Inl (ValueError ''shapes of x,y and pdf do not match'')
   \<and> validate_infer_indexes \<lparr>shape = [3, 2], strides = [1, 3], data = [1, 2, 3, 4, 5, 6]\<rparr>
         (Some [0, 1, 2]) (Some [0, 1]) None
       = Inr (\<lparr>shape = [3, 2], strides = [1, 3], data = [1, 2, 3, 4, 5, 6]\<rparr>, [0, 1, 2], [0, 1])
   \<and> is_c_contiguous \<lparr>shape = [6], strides = [1], data = [1, 2, 3, 4, 5, 6]\<rparr>
   \<and> validate_infer_indexes \<lparr>shape = [6], strides = [1], data = [1, 2, 3, 4, 5, 6]\<rparr>
         (Some [0, 1, 2]) (Some [0, 1]) None
       = Inr (\<lparr>shape = [3, 2], strides = [2, 1], data = [1, 2, 3, 4, 5, 6]\<rparr>, [0, 1, 2], [0, 1])
   \<and> \<not> is_c_contiguous \<lparr>shape = [4], strides = [2], data = [1, 2, 3, 4, 5, 6, 7, 8]\<rparr>
   \<and> validate_infer_indexes \<lparr>shape = [4], strides = [2], data = [1, 2, 3, 4, 5, 6, 7, 8]\<rparr>
         (Some [0, 1]) (Some [0, 1]) None
       = Inr (\<lparr>shape = [2, 2], strides = [4, 2], data = [1, 2, 3, 4, 5, 6, 7, 8]\<rparr>, [0, 1], [0, 1])
   \<and> length [0, 1 :: rat] * length [0, 1, 2 :: rat]
      = size_nd \<lparr>shape = [3, 2], strides = [1, 3], data = [1, 2, 3, 4, 5, 6]\<rparr>
   \<and> \<not> (shape \<lparr>shape = [3, 2], strides = [1, 3], data = [1 :: rat, 2, 3, 4, 5, 6]\<rparr>
            = [length [0, 1 :: rat], length [0, 1, 2 :: rat]]
          \<or> is_c_contiguous \<lparr>shape = [3, 2], strides = [1, 3], data = [1, 2, 3, 4, 5, 6]\<rparr>
          \<or> attempt_nocopy_reshape \<lparr>shape = [3, 2], strides = [1, 3], data = [1, 2, 3, 4, 5, 6]\<rparr>
               [length [0, 1 :: rat], length [0, 1, 2 :: rat]] \<noteq> None)
   \<and> validate_infer_indexes \<lparr>shape = [3, 2], strides = [1, 3], data = [1, 2, 3, 4, 5, 6]\<rparr>
               (Some [0, 1]) (Some [0, 1, 2]) None
             = Inl (AttributeError ''incompatible shape for a non-contiguous array'')"
proof -
  let ?p5 = "\<lparr>shape = [5], strides = [1], data = [1 :: rat, 2, 3, 4, 5]\<rparr>"
  let ?p6 = "\<lparr>shape = [6], strides = [1], data = [1 :: rat, 2, 3, 4, 5, 6]\<rparr>"
  let ?t = "\<lparr>shape = [3, 2], strides = [1, 3], data = [1 :: rat, 2, 3, 4, 5, 6]\<rparr>"
  let ?v = "\<lparr>shape = [4], strides = [2], data = [1 :: rat, 2, 3, 4, 5, 6, 7, 8]\<rparr>"
  have ne: "length [0, 1, 2 :: rat] * length [0, 1 :: rat] \<noteq> size_nd ?p5"
    by (simp add: size_nd_def)
  from ne have a: "validate_infer_indexes ?p5 (Some [0, 1, 2]) (Some [0, 1]) None
       = Inl (ValueError ''shapes of x,y and pdf do not match'')"
    by (rule C3_axes_given [of "[0, 1, 2]" "[0, 1]" ?p5, THEN conjunct1, THEN mp])
  have same: "length [0, 1, 2 :: rat] * length [0, 1 :: rat] = size_nd ?t
                \<and> shape ?t = [length [0, 1, 2 :: rat], length [0, 1 :: rat]]"
    by (simp add: size_nd_def)
  from same have b: "validate_infer_indexes ?t (Some [0, 1, 2]) (Some [0, 1]) None
       = Inr (?t, [0, 1, 2], [0, 1])"
    by (rule C3_axes_given [of "[0, 1, 2]" "[0, 1]" ?t, THEN conjunct2, THEN conjunct1, THEN mp])
  have cc: "is_c_contiguous ?p6" by (simp add: is_c_contiguous_def)
  have packed: "length [0, 1, 2 :: rat] * length [0, 1 :: rat] = size_nd ?p6
                  \<and> shape ?p6 \<noteq> [length [0, 1, 2 :: rat], length [0, 1 :: rat]]
                  \<and> is_c_contiguous ?p6"
    using cc by (simp add: size_nd_def)
  from packed have "validate_infer_indexes ?p6 (Some [0, 1, 2]) (Some [0, 1]) None
       = Inr (?p6\<lparr>shape := [length [0, 1, 2 :: rat], length [0, 1 :: rat]],
                   strides := c_strides [length [0, 1, 2 :: rat], length [0, 1 :: rat]]\<rparr>,
              [0, 1, 2], [0, 1])"
    by (rule C3_axes_given [of "[0, 1, 2]" "[0, 1]" ?p6,
               THEN conjunct2, THEN conjunct2, THEN conjunct1, THEN mp])
  then have c: "validate_infer_indexes ?p6 (Some [0, 1, 2]) (Some [0, 1]) None
       = Inr (\<lparr>shape = [3, 2], strides = [2, 1], data = [1, 2, 3, 4, 5, 6]\<rparr>, [0, 1, 2], [0, 1])"
    by (simp add: numeral_2_eq_2 numeral_3_eq_3)
  have nv: "\<not> is_c_contiguous ?v" by (simp add: is_c_contiguous_def)
  have flat: "length [0, 1 :: rat] * length [0, 1 :: rat] = size_nd ?v
                \<and> length (shape ?v) = 1 \<and> length (strides ?v) = 1 \<and> \<not> is_c_contiguous ?v"
    using nv by (simp add: size_nd_def)
  from flat have "validate_infer_indexes ?v (Some [0, 1]) (Some [0, 1]) None
       = Inr (?v\<lparr>shape := [length [0, 1 :: rat], length [0, 1 :: rat]],
                  strides := [hd (strides ?v) * int (length [0, 1 :: rat]), hd (strides ?v)]\<rparr>,
              [0, 1], [0, 1])"
    by (rule C3_axes_given [of "[0, 1]" "[0, 1]" ?v,
               THEN conjunct2, THEN conjunct2, THEN conjunct2, THEN conjunct1, THEN mp])
  then have d: "validate_infer_indexes ?v (Some [0, 1]) (Some [0, 1]) None
       = Inr (\<lparr>shape = [2, 2], strides = [4, 2], data = [1, 2, 3, 4, 5, 6, 7, 8]\<rparr>, [0, 1], [0, 1])"
    by (simp add: numeral_2_eq_2)
  have eqt: "length [0, 1 :: rat] * length [0, 1, 2 :: rat] = size_nd ?t"
    by (simp add: size_nd_def)
  have stuck: "\<not> (shape ?t = [length [0, 1 :: rat], length [0, 1, 2 :: rat]]
          \<or> is_c_contiguous ?t
          \<or> attempt_nocopy_reshape ?t [length [0, 1 :: rat], length [0, 1, 2 :: rat]] \<noteq> None)"
    by code_simp
  note last = C3_axes_given [of "[0, 1]" "[0, 1, 2]" ?t,
                 THEN conjunct2, THEN conjunct2, THEN conjunct2, THEN conjunct2, THEN mp, OF eqt]
  from last stuck have e: "validate_infer_indexes ?t (Some [0, 1]) (Some [0, 1, 2]) None
          = Inl (AttributeError ''incompatible shape for a non-contiguous array'')"
    by (simp only: if_False)
  from ne a b cc c nv d eqt stuck e show ?thesis by blast
qed

text \<open>
  C3 as stated fails at a transposed array: the 3 by 2 transpose of a 2 by 3 array
  has six elements, as \<open>len(x) * len(y)\<close> for axes of 2 and 3 points, yet the shape
  \<open>(2, 3)\<close> cannot be assigned in place and normalisation fails.
\<close>

theorem C3_transposed_counterexample:
  "length [0, 1 :: rat] * length [0, 1, 2 :: rat]
     = size_nd \<lparr>shape = [3, 2], strides = [1, 3], data = [1, 2, 3, 4, 5, 6]\<rparr>
   \<and> validate_infer_indexes \<lparr>shape = [3, 2], strides = [1, 3], data = [1, 2, 3, 4, 5, 6]\<rparr>
        (Some [0, 1]) (Some [0, 1, 2]) None
      = Inl (AttributeError ''incompatible shape for a non-contiguous array'')"
  by code_simp

text \<open>
  C4. Whenever exactly one of the two axes is set once \<open>indexes\<close> has been applied,
  normalisation fails with the argument-pairing error, whatever the pdf.
\<close>

theorem C4_one_axis:
  assumes "apply_indexes x y indexes = (x', y')" and "(x' = None) \<noteq> (y' = None)"
  shows "validate_infer_indexes pdf x y indexes =
           Inl (TypeError ''x and y must be both set or both unset'')"
  using assms by (cases x'; cases y') (simp_all add: validate_infer_indexes_def)

theorem C4_witness:
  "apply_indexes (Some [0, 1]) None None = (Some [0, 1], None)
   \<and> validate_infer_indexes \<lparr>shape = [4], strides = [1], data = [1, 2, 3, 4]\<rparr> (Some [0, 1]) None None
       = Inl (TypeError ''x and y must be both set or both unset'')
   \<and> apply_indexes None None (Some [Some [0, 1]]) = (Some [0, 1], None)
   \<and> validate_infer_indexes \<lparr>shape = [4], strides = [1], data = [1, 2, 3, 4]\<rparr> None None (Some [Some [0, 1]])
       = Inl (TypeError ''x and y must be both set or both unset'')
   \<and> apply_indexes None (Some [0, 1]) (Some []) = (None, Some [0, 1])
   \<and> validate_infer_indexes \<lparr>shape = [4], strides = [1], data = [1, 2, 3, 4]\<rparr> None (Some [0, 1]) (Some [])
       = Inl (TypeError ''x and y must be both set or both unset'')"
proof -
  have a: "apply_indexes (Some [0, 1]) None None = (Some [0, 1], None)"
    and b: "apply_indexes None None (Some [Some [0, 1]]) = (Some [0, 1], None)"
    and c: "apply_indexes None (Some [0, 1]) (Some []) = (None, Some [0, 1])"
    by (simp_all add: apply_indexes_def)
  have p: "(Some [0, 1 :: rat] = None) \<noteq> ((None :: axis option) = None)"
    and q: "((None :: axis option) = None) \<noteq> (Some [0, 1 :: rat] = None)"
    by simp_all
  from C4_one_axis [OF a p] C4_one_axis [OF b p] C4_one_axis [OF c q] a b c
  show ?thesis by blast
qed

text \<open>
  C5. Every successful return \<open>(grid, x_axis, y_axis)\<close> of normalisation has
  \<open>grid.shape == (len(x_axis), len(y_axis))\<close>.
\<close>

theorem C5_shape_matches_axes:
  assumes "validate_infer_indexes pdf x y indexes = Inr (g, xa, ya)"
  shows "shape g = [length xa, length ya]"
  using assms by (rule validate_shape_matches)

theorem C5_witness:
  "validate_infer_indexes \<lparr>shape = [4], strides = [1], data = [1, 2, 3, 4]\<rparr> None None None
     = Inr (\<lparr>shape = [2, 2], strides = [2, 1], data = [1, 2, 3, 4]\<rparr>, [0, 1], [0, 1])
   \<and> shape \<lparr>shape = [2, 2], strides = [2, 1], data = [1, 2, 3, 4]\<rparr> = [length [0, 1 :: rat], length [0, 1 :: rat]]"
proof -
  have run: "validate_infer_indexes \<lparr>shape = [4], strides = [1], data = [1, 2, 3, 4]\<rparr> None None None
     = Inr (\<lparr>shape = [2, 2], strides = [2, 1], data = [1, 2, 3, 4]\<rparr>, [0, 1], [0, 1])"
    by code_simp
  from C5_shape_matches_axes [OF run] run show ?thesis by simp
qed

text \<open>
  C6. Passing \<open>indexes = [xs, ys]\<close> gives the result (or the error) of passing
  \<open>x = xs\<close> and \<open>y = ys\<close> directly, whatever was passed for \<open>x\<close> and \<open>y\<close>.
\<close>

theorem C6_indexes_pair:
  "validate_infer_indexes pdf x0 y0 (Some [Some xs, Some ys]) =
     validate_infer_indexes pdf (Some xs) (Some ys) None"
  by (simp add: validate_infer_indexes_def apply_indexes_def)

section \<open>Properties of the drivers\<close>











section \<open>Claims about the drivers\<close>




text \<open>
  C8. When \<open>levels_lst\<close>, \<open>pdf_lst\<close> and \<open>labels\<close> do not all have the same length,
  \<^verbatim>\<open>plot_contour_levels_stat\<close> fails with the length-mismatch error and leaves the
  trace as it was: no figure, no subplot.
\<close>

theorem C8_length_mismatch:
  assumes "\<not> (length levels_lst = length pdf_lst \<and> length pdf_lst = length labels)"
  shows "plot_contour_levels_stat C levels_lst pdf_lst labels tr =
           (Inl (ValueError ''All arguments must be sequences of equal length.''), tr)"
  using assms by (auto simp: plot_contour_levels_stat_def)

theorem C8_witness:
  "plot_contour_levels_stat stub_collaborators [[1]]
      [\<lparr>shape = [2, 2], strides = [2, 1], data = [1, 2, 3, 4]\<rparr>, \<lparr>shape = [2, 2], strides = [2, 1], data = [1, 2, 3, 4]\<rparr>]
      [''old'', ''vertical''] []
     = (Inl (ValueError ''All arguments must be sequences of equal length.''), [])
   \<and> plot_contour_levels_stat stub_collaborators [[1], [2]]
      [\<lparr>shape = [2, 2], strides = [2, 1], data = [1, 2, 3, 4]\<rparr>]
      [''old'', ''vertical''] []
     = (Inl (ValueError ''All arguments must be sequences of equal length.''), [])
   \<and> plot_contour_levels_stat stub_collaborators [[1], [2]]
      [\<lparr>shape = [2, 2], strides = [2, 1], data = [1, 2, 3, 4]\<rparr>, \<lparr>shape = [2, 2], strides = [2, 1], data = [1, 2, 3, 4]\<rparr>]
      [''old''] []
     = (Inl (ValueError ''All arguments must be sequences of equal length.''), [])"
proof -
  let ?g = "\<lparr>shape = [2, 2], strides = [2, 1], data = [1 :: rat, 2, 3, 4]\<rparr>"
  have a: "\<not> (length [[1 :: rat]] = length [?g, ?g] \<and> length [?g, ?g] = length [''old'', ''vertical''])"
    and b: "\<not> (length [[1 :: rat], [2]] = length [?g] \<and> length [?g] = length [''old'', ''vertical''])"
    and c: "\<not> (length [[1 :: rat], [2]] = length [?g, ?g] \<and> length [?g, ?g] = length [''old''])"
    by simp_all
  from C8_length_mismatch [OF a] C8_length_mismatch [OF b] C8_length_mismatch [OF c]
  show ?thesis by blast
qed

text \<open>
  C9. The claim: the bar subplots for a resolution \<open>k\<close> are titled with the scheme
  names \<open>old\<close>, \<open>vertical\<close> and \<open>horizontal\<close>, each followed by \<open>(k=<k>)\<close>. The
  code spells the third template \<open>horizonal\<close> (lines 225 and 230), while the default
  labels of line 13 have \<open>horizontal\<close>. Evaluated on the flat pdf \<open>[1, 2, 3, 4]\<close> with
  the scalar resolution 3; lemma \<open>combined_labels_eq\<close> gives the titles for every
  resolution.
\<close>

theorem C9_third_title_misspelt:
  "snd (plot_combined stub_collaborators \<lparr>shape = [4], strides = [1], data = [1, 2, 3, 4]\<rparr>
          None None None (Scalar 3) [])
     = [Figure 3,
        Bar 0 [''L1'', ''L2'', ''L3''] [1, 1, 1], SetTitle 0 ''old (k=3)'',
        Bar 1 [''L1'', ''L2'', ''L3''] [1, 1, 1], SetTitle 1 ''vertical (k=3)'',
        Bar 2 [''L1'', ''L2'', ''L3'', ''L4''] [1, 1, 1, 1], SetTitle 2 ''horizonal (k=3)'',
        Figure 3,
        Contour 0 [0, 1] [0, 1] \<lparr>shape = [2, 2], strides = [2, 1], data = [1, 2, 3, 4]\<rparr> [2, 3],
        SetTitle 0 ''old (k=3)'',
        Contour 1 [0, 1] [0, 1] \<lparr>shape = [2, 2], strides = [2, 1], data = [1, 2, 3, 4]\<rparr> [1, 3],
        SetTitle 1 ''vertical (k=3)'',
        Contour 2 [0, 1] [0, 1] \<lparr>shape = [2, 2], strides = [2, 1], data = [1, 2, 3, 4]\<rparr> [1, 3],
        SetTitle 2 ''horizonal (k=3)'',
        Show]
   \<and> ''horizonal (k=3)'' \<noteq> ''horizontal (k=3)''"
  by code_simp

text \<open>
  C10. Called with one scheme (all three arguments of length 1),
  \<^verbatim>\<open>plot_contour_levels_stat\<close> fails: the figure of one column is created, its axes
  value is a single object, and \<open>ax[0]\<close> raises before any bar is drawn (unless the
  weight routine has raised already).
\<close>

theorem C10_single_scheme_fails:
  assumes "length levels_lst = 1" and "length pdf_lst = 1" and "length labels = 1"
  shows "\<exists>e. plot_contour_levels_stat C levels_lst pdf_lst labels tr = (Inl e, tr @ [Figure 1])
            \<and> (\<forall>w. contour_level_weight C (hd levels_lst) (hd pdf_lst) = Inr w
                  \<longrightarrow> e = TypeError ''Axes object is not subscriptable'')"
proof -
  from assms obtain levels pdf label
    where "levels_lst = [levels]" and "pdf_lst = [pdf]" and "labels = [label]"
    by (auto simp: length_Suc_conv)
  then show ?thesis
    by (cases "contour_level_weight C levels pdf")
       (simp_all add: plot_contour_levels_stat_def subplots_def axes_getitem_def)
qed

theorem C10_witness:
  "length [[1 :: rat]] = 1 \<and> length [\<lparr>shape = [2, 2], strides = [2, 1], data = [1, 2, 3, 4]\<rparr>] = 1
   \<and> length [''old''] = 1
   \<and> plot_contour_levels_stat stub_collaborators [[1]]
        [\<lparr>shape = [2, 2], strides = [2, 1], data = [1, 2, 3, 4]\<rparr>] [''old''] []
      = (Inl (TypeError ''Axes object is not subscriptable''), [Figure 1])"
proof -
  let ?g = "\<lparr>shape = [2, 2], strides = [2, 1], data = [1 :: rat, 2, 3, 4]\<rparr>"
  have a: "length [[1 :: rat]] = 1" and b: "length [?g] = 1" and c: "length [''old''] = 1"
    by simp_all
  have w: "contour_level_weight stub_collaborators (hd [[1]]) (hd [?g]) = Inr [1, 1]"
    by (simp add: stub_collaborators_def)
  from C10_single_scheme_fails [OF a b c, of stub_collaborators "[]"] obtain e
    where run: "plot_contour_levels_stat stub_collaborators [[1]] [?g] [''old''] []
                  = (Inl e, [] @ [Figure 1])"
      and err: "\<forall>w. contour_level_weight stub_collaborators (hd [[1]]) (hd [?g]) = Inr w
                  \<longrightarrow> e = TypeError ''Axes object is not subscriptable''"
    by blast
  from err w have "e = TypeError ''Axes object is not subscriptable''" by blast
  with run a b c show ?thesis by simp
qed

end
